theory Spec2Isabelle
  imports Complex_Main
begin

section \<open>Data model (package models)\<close>

text \<open>
  The rows of the relational store, with the fields the order lifecycle and the role
  directory read or write. Go's \<open>uint\<close> keys are \<open>nat\<close>; Go's \<open>int\<close> columns
  (\<open>Stock\<close>, \<open>OrderCount\<close>, \<open>Quantity\<close>) are \<open>int\<close>: the Go code only compares and
  converts them, the arithmetic on them is the SQL expression of \<open>ConfirmOrder\<close>.
  \<open>float64\<close> amounts are values of an arbitrary type \<open>'f\<close> that has a zero, an
  addition and a multiplication, about which no law is assumed; the conversion
  \<open>float64(n)\<close> is a parameter of the functions that use it. Timestamps are left out.
  \<open>DeletedAt\<close> is the soft-delete marker of gorm (\<open>True\<close>: the row is marked deleted and
  no query of the services sees it); it is kept on the two tables whose rows the
  services can mark deleted.
\<close>

datatype OrderStatus =
    OrderStatusPending
  | OrderStatusPaid
  | OrderStatusConfirmed
  | OrderStatusShipped
  | OrderStatusDelivered
  | OrderStatusCancelled

record 'f Product =
  ID :: nat
  Title :: string
  Price :: 'f
  Stock :: int
  OrderCount :: int
  DeletedAt :: bool

record 'f Order =
  ID :: nat
  UserID :: nat
  OrderNumber :: string
  Status :: OrderStatus
  TotalAmount :: 'f

record 'f OrderItem =
  ID :: nat
  OrderID :: nat
  ProductID :: nat
  Quantity :: int
  PriceAtMoment :: 'f

record OrderItemRequest =
  ProductID :: nat
  Quantity :: int

record 'f OrderItemResponse =
  ID :: nat
  OrderID :: nat
  ProductID :: nat
  Quantity :: int
  PriceAtMoment :: 'f

record 'f OrderResponse =
  ID :: nat
  UserID :: nat
  OrderNumber :: string
  Status :: OrderStatus
  TotalAmount :: 'f
  OrderItems :: "'f OrderItemResponse list"

record User =
  ID :: nat
  Email :: string

record Role =
  ID :: nat
  Name :: string

record UserRole =
  ID :: nat
  UserID :: nat
  RoleID :: nat
  DeletedAt :: bool

definition ROLE_SUPER_ADMIN :: string where "ROLE_SUPER_ADMIN = ''super_admin''"
definition ROLE_SELLER :: string where "ROLE_SELLER = ''seller''"
definition ROLE_USER :: string where "ROLE_USER = ''user''"

section \<open>The store (package database)\<close>

text \<open>
  \<open>database.DB\<close> is one record of tables; each table lists its rows in primary-key
  order, the order in which gorm's \<open>First\<close> looks for a row. A transaction works on
  a copy of the store: \<open>Commit\<close> makes the copy the store, \<open>Rollback\<close> keeps the store
  as it was at \<open>Begin\<close>.

  The services treat every error of the store other than \<open>gorm.ErrRecordNotFound\<close> as
  opaque. Such errors are the second argument of each service function: \<open>fl k\<close> holds
  when the \<open>k\<close>-th call that the function makes to the store (counted from 0, in program
  order) returns an error of the store's own: a lost connection, or a write that the
  store refuses for a reason the tables below do not show, as it does a number outside
  the range of its column.
\<close>

record 'f store =
  products :: "'f Product list"
  orders :: "'f Order list"
  order_items :: "'f OrderItem list"
  users :: "User list"
  roles :: "Role list"
  user_roles :: "UserRole list"

type_synonym faults = "nat \<Rightarrow> bool"

datatype error = Error string | StoreError | ParseError

datatype 'a found = Found 'a | ErrRecordNotFound | ErrOther

definition First :: "faults \<Rightarrow> nat \<Rightarrow> ('a \<Rightarrow> bool) \<Rightarrow> 'a list \<Rightarrow> 'a found" where
  "First fl k cond rows =
     (if fl k then ErrOther
      else case find cond rows of None \<Rightarrow> ErrRecordNotFound | Some r \<Rightarrow> Found r)"

text \<open>The key the store gives to a new row: one more than every key of the table.\<close>

definition next_id :: "nat list \<Rightarrow> nat" where
  "next_id ids = Suc (fold max ids 0)"

text \<open>\<open>%d\<close> of \<open>fmt.Sprintf\<close>.\<close>

fun show_nat :: "nat \<Rightarrow> string" where
  "show_nat n =
     (if n < 10 then [''0123456789'' ! n]
      else show_nat (n div 10) @ [''0123456789'' ! (n mod 10)])"

declare show_nat.simps [simp del]

definition show_int :: "int \<Rightarrow> string" where
  "show_int i = (if i < 0 then CHR ''-'' # show_nat (nat (- i)) else show_nat (nat i))"

section \<open>OrderService (services/order.go)\<close>

subsection \<open>CreateOrder\<close>

text \<open>
  \<open>Order.OrderNumber\<close> carries a unique index: \<open>tx.Create(&order)\<close> is refused when a
  row of the table already has the number of the new order, which \<open>CreateOrder\<close>
  makes of the second of the clock (\<open>now\<close>, \<open>time.Now().Unix()\<close>) and the user.

  The loop over \<open>req.Items\<close>: \<open>k\<close> is the number of store calls made so far,
  \<open>totalAmount\<close> and \<open>orderItems\<close> are the two accumulators. A line whose product is
  missing or under-stocked ends the loop with the error of that line.
\<close>

fun CreateOrder_loop ::
  "(int \<Rightarrow> 'f) \<Rightarrow> faults \<Rightarrow> nat \<Rightarrow> ('f::{zero,plus,times}) Product list \<Rightarrow>
   OrderItemRequest list \<Rightarrow> 'f \<Rightarrow> 'f OrderItem list \<Rightarrow> error + ('f \<times> 'f OrderItem list)" where
  "CreateOrder_loop float64 fl k ps [] totalAmount orderItems = Inr (totalAmount, orderItems)"
| "CreateOrder_loop float64 fl k ps (item # rest) totalAmount orderItems =
     (case First fl k (\<lambda>p. Product.ID p = OrderItemRequest.ProductID item \<and> \<not> Product.DeletedAt p) ps of
        ErrRecordNotFound \<Rightarrow> Inl (Error ''product not found'')
      | ErrOther \<Rightarrow> Inl (Error ''database error'')
      | Found product \<Rightarrow>
          if Stock product < OrderItemRequest.Quantity item
          then Inl (Error (''insufficient stock for product '' @ Title product))
          else
            let itemTotal = Price product * float64 (OrderItemRequest.Quantity item);
                orderItem = \<lparr>OrderItem.ID = 0, OrderID = 0,
                             ProductID = OrderItemRequest.ProductID item,
                             Quantity = OrderItemRequest.Quantity item,
                             PriceAtMoment = Price product\<rparr>
            in CreateOrder_loop float64 fl (Suc k) ps rest
                 (totalAmount + itemTotal) (orderItems @ [orderItem]))"

text \<open>
  \<open>tx.Create(&orderItems)\<close>: the store numbers the new rows consecutively. gorm
  refuses to insert an empty slice (\<open>ErrEmptySlice\<close>).
\<close>

definition insert_items :: "'f OrderItem list \<Rightarrow> 'f OrderItem list \<Rightarrow> 'f OrderItem list" where
  "insert_items rows new =
     rows @ map (\<lambda>(i, it). it\<lparr>OrderItem.ID := next_id (map OrderItem.ID rows) + i\<rparr>)
                (enumerate 0 new)"

definition item_response :: "'f OrderItem \<Rightarrow> 'f OrderItemResponse" where
  "item_response item =
     \<lparr>OrderItemResponse.ID = OrderItem.ID item,
      OrderID = OrderItem.OrderID item,
      ProductID = OrderItem.ProductID item,
      Quantity = OrderItem.Quantity item,
      PriceAtMoment = OrderItem.PriceAtMoment item\<rparr>"

definition order_response :: "'f Order \<Rightarrow> 'f OrderItemResponse list \<Rightarrow> 'f OrderResponse" where
  "order_response order its =
     \<lparr>OrderResponse.ID = Order.ID order,
      UserID = Order.UserID order,
      OrderNumber = Order.OrderNumber order,
      Status = Order.Status order,
      TotalAmount = Order.TotalAmount order,
      OrderItems = its\<rparr>"

definition CreateOrder ::
  "(int \<Rightarrow> 'f) \<Rightarrow> faults \<Rightarrow> int \<Rightarrow> nat \<Rightarrow> OrderItemRequest list \<Rightarrow>
   ('f::{zero,plus,times}) store \<Rightarrow> (error + 'f OrderResponse) \<times> 'f store" where
  "CreateOrder float64 fl now userID items s =
     (let orderNumber = ''ORD-'' @ show_int now @ ''-'' @ show_nat userID;
          n = length items
      in case CreateOrder_loop float64 fl 0 (products s) items 0 [] of
           Inl e \<Rightarrow> (Inl e, s)
         | Inr (totalAmount, orderItems) \<Rightarrow>
             if fl n \<or> orderNumber \<in> set (map Order.OrderNumber (orders s))
             then (Inl (Error ''failed to create order''), s)
             else
               let order = \<lparr>Order.ID = next_id (map Order.ID (orders s)),
                             UserID = userID, OrderNumber = orderNumber,
                             Status = OrderStatusPending, TotalAmount = totalAmount\<rparr>;
                   tx1 = s\<lparr>orders := orders s @ [order]\<rparr>;
                   orderItems1 = map (\<lambda>it. it\<lparr>OrderItem.OrderID := Order.ID order\<rparr>) orderItems
               in if orderItems1 = [] \<or> fl (n + 1)
                  then (Inl (Error ''failed to create order items''), s)
                  else
                    let tx2 = tx1\<lparr>order_items := insert_items (order_items tx1) orderItems1\<rparr>
                    in if fl (n + 2) then (Inl (Error ''failed to commit transaction''), s)
                       else
                         (case First fl (n + 3) (\<lambda>r. Order.ID r = Order.ID order) (orders tx2) of
                            Found orderWithItems \<Rightarrow>
                              (Inr (order_response order
                                      (map item_response
                                         (filter (\<lambda>it. OrderItem.OrderID it = Order.ID orderWithItems)
                                            (order_items tx2)))),
                               tx2)
                          | _ \<Rightarrow> (Inl (Error ''failed to load order''), tx2)))"

subsection \<open>Status transitions\<close>

text \<open>\<open>Save(&order)\<close> writes every column of the row whose key is \<open>order.ID\<close>.\<close>

definition Save :: "'f Order \<Rightarrow> 'f Order list \<Rightarrow> 'f Order list" where
  "Save order rows = map (\<lambda>r. if Order.ID r = Order.ID order then order else r) rows"

definition UpdateOrderStatus ::
  "faults \<Rightarrow> nat \<Rightarrow> nat \<Rightarrow> OrderStatus \<Rightarrow> 'f store \<Rightarrow> (error + 'f OrderResponse) \<times> 'f store" where
  "UpdateOrderStatus fl orderID userID reqStatus s =
     (case First fl 0 (\<lambda>r. Order.ID r = orderID \<and> Order.UserID r = userID) (orders s) of
        ErrRecordNotFound \<Rightarrow> (Inl (Error ''order not found''), s)
      | ErrOther \<Rightarrow> (Inl (Error ''database error''), s)
      | Found order \<Rightarrow>
          if reqStatus \<noteq> OrderStatusCancelled
          then (Inl (Error ''users can only cancel orders''), s)
          else if Order.Status order = OrderStatusDelivered \<or> Order.Status order = OrderStatusCancelled
          then (Inl (Error ''order cannot be cancelled''), s)
          else
            let order1 = order\<lparr>Order.Status := reqStatus\<rparr>
            in if fl 1 then (Inl (Error ''failed to update order''), s)
               else (Inr (order_response order1 []), s\<lparr>orders := Save order1 (orders s)\<rparr>))"

text \<open>
  The two updates that \<open>ConfirmOrder\<close> sends for each line:
  \<open>UPDATE products SET stock = stock - ? WHERE id = ?\<close> and
  \<open>UPDATE products SET order_count = order_count + 1 WHERE id = ?\<close>, both on the rows
  not marked deleted. An update that matches no row is no error.
\<close>

definition update_stock :: "nat \<Rightarrow> int \<Rightarrow> 'f Product list \<Rightarrow> 'f Product list" where
  "update_stock pid q ps =
     map (\<lambda>p. if Product.ID p = pid \<and> \<not> Product.DeletedAt p then p\<lparr>Stock := Stock p - q\<rparr> else p) ps"

definition update_order_count :: "nat \<Rightarrow> 'f Product list \<Rightarrow> 'f Product list" where
  "update_order_count pid ps =
     map (\<lambda>p. if Product.ID p = pid \<and> \<not> Product.DeletedAt p
               then p\<lparr>OrderCount := OrderCount p + 1\<rparr> else p) ps"

fun ConfirmOrder_loop ::
  "faults \<Rightarrow> nat \<Rightarrow> 'f OrderItem list \<Rightarrow> 'f Product list \<Rightarrow> error + 'f Product list" where
  "ConfirmOrder_loop fl k [] ps = Inr ps"
| "ConfirmOrder_loop fl k (item # rest) ps =
     (if fl k then Inl (Error ''failed to update product stock'')
      else
        let ps1 = update_stock (OrderItem.ProductID item) (OrderItem.Quantity item) ps
        in if fl (k + 1) then Inl (Error ''failed to update product order count'')
           else ConfirmOrder_loop fl (k + 2) rest (update_order_count (OrderItem.ProductID item) ps1))"

definition ConfirmOrder ::
  "faults \<Rightarrow> nat \<Rightarrow> 'f store \<Rightarrow> (error + 'f OrderResponse) \<times> 'f store" where
  "ConfirmOrder fl orderID s =
     (case First fl 0 (\<lambda>r. Order.ID r = orderID) (orders s) of
        ErrRecordNotFound \<Rightarrow> (Inl (Error ''order not found''), s)
      | ErrOther \<Rightarrow> (Inl (Error ''database error''), s)
      | Found order \<Rightarrow>
          let orderItems = filter (\<lambda>it. OrderItem.OrderID it = Order.ID order) (order_items s);
              n = length orderItems
          in if Order.Status order \<noteq> OrderStatusPaid
             then (Inl (Error ''order must be paid before confirmation''), s)
             else
               (case ConfirmOrder_loop fl 1 orderItems (products s) of
                  Inl e \<Rightarrow> (Inl e, s)
                | Inr ps \<Rightarrow>
                    let order1 = order\<lparr>Order.Status := OrderStatusConfirmed\<rparr>
                    in if fl (1 + 2 * n) then (Inl (Error ''failed to update order status''), s)
                       else if fl (2 + 2 * n) then (Inl (Error ''failed to commit transaction''), s)
                       else (Inr (order_response order1 []),
                             s\<lparr>products := ps, orders := Save order1 (orders s)\<rparr>)))"

definition ShipOrder ::
  "faults \<Rightarrow> nat \<Rightarrow> 'f store \<Rightarrow> (error + 'f OrderResponse) \<times> 'f store" where
  "ShipOrder fl orderID s =
     (case First fl 0 (\<lambda>r. Order.ID r = orderID) (orders s) of
        ErrRecordNotFound \<Rightarrow> (Inl (Error ''order not found''), s)
      | ErrOther \<Rightarrow> (Inl (Error ''database error''), s)
      | Found order \<Rightarrow>
          if Order.Status order \<noteq> OrderStatusConfirmed
          then (Inl (Error ''order must be confirmed before shipping''), s)
          else
            let order1 = order\<lparr>Order.Status := OrderStatusShipped\<rparr>
            in if fl 1 then (Inl (Error ''failed to update order status''), s)
               else (Inr (order_response order1 []), s\<lparr>orders := Save order1 (orders s)\<rparr>))"

definition DeliverOrder ::
  "faults \<Rightarrow> nat \<Rightarrow> 'f store \<Rightarrow> (error + 'f OrderResponse) \<times> 'f store" where
  "DeliverOrder fl orderID s =
     (case First fl 0 (\<lambda>r. Order.ID r = orderID) (orders s) of
        ErrRecordNotFound \<Rightarrow> (Inl (Error ''order not found''), s)
      | ErrOther \<Rightarrow> (Inl (Error ''database error''), s)
      | Found order \<Rightarrow>
          if Order.Status order \<noteq> OrderStatusShipped
          then (Inl (Error ''order must be shipped before delivery''), s)
          else
            let order1 = order\<lparr>Order.Status := OrderStatusDelivered\<rparr>
            in if fl 1 then (Inl (Error ''failed to update order status''), s)
               else (Inr (order_response order1 []), s\<lparr>orders := Save order1 (orders s)\<rparr>))"

definition CancelOrder ::
  "faults \<Rightarrow> nat \<Rightarrow> 'f store \<Rightarrow> (error + 'f OrderResponse) \<times> 'f store" where
  "CancelOrder fl orderID s =
     (case First fl 0 (\<lambda>r. Order.ID r = orderID) (orders s) of
        ErrRecordNotFound \<Rightarrow> (Inl (Error ''order not found''), s)
      | ErrOther \<Rightarrow> (Inl (Error ''database error''), s)
      | Found order \<Rightarrow>
          if Order.Status order = OrderStatusDelivered \<or> Order.Status order = OrderStatusCancelled
          then (Inl (Error ''order cannot be cancelled''), s)
          else
            let order1 = order\<lparr>Order.Status := OrderStatusCancelled\<rparr>
            in if fl 1 then (Inl (Error ''failed to update order status''), s)
               else (Inr (order_response order1 []), s\<lparr>orders := Save order1 (orders s)\<rparr>))"

definition PayOrder ::
  "faults \<Rightarrow> nat \<Rightarrow> nat \<Rightarrow> 'f store \<Rightarrow> (error + 'f OrderResponse) \<times> 'f store" where
  "PayOrder fl orderID userID s =
     (case First fl 0 (\<lambda>r. Order.ID r = orderID \<and> Order.UserID r = userID) (orders s) of
        ErrRecordNotFound \<Rightarrow> (Inl (Error ''order not found''), s)
      | ErrOther \<Rightarrow> (Inl (Error ''database error''), s)
      | Found order \<Rightarrow>
          if Order.Status order \<noteq> OrderStatusPending
          then (Inl (Error ''only pending orders can be paid''), s)
          else
            let order1 = order\<lparr>Order.Status := OrderStatusPaid\<rparr>
            in if fl 1 then (Inl (Error ''failed to update order status''), s)
               else (Inr (order_response order1 []), s\<lparr>orders := Save order1 (orders s)\<rparr>))"

section \<open>ProductService.UpdateStock\<close>

text \<open>
  The stock adjustment of the catalogue service. \<open>product.Stock + quantity\<close> is Go
  arithmetic on a 64-bit \<open>int\<close> and wraps; \<open>Update("stock", newStock)\<close> writes the row
  that was read.
\<close>

definition int64 :: "int \<Rightarrow> int" where
  "int64 x = (x + 2 ^ 63) mod 2 ^ 64 - 2 ^ 63"

definition UpdateStock :: "faults \<Rightarrow> nat \<Rightarrow> int \<Rightarrow> 'f store \<Rightarrow> error option \<times> 'f store" where
  "UpdateStock fl productID quantity s =
     (case First fl 0 (\<lambda>p. Product.ID p = productID \<and> \<not> Product.DeletedAt p) (products s) of
        ErrRecordNotFound \<Rightarrow> (Some (Error ''product not found''), s)
      | ErrOther \<Rightarrow> (Some (Error ''database error''), s)
      | Found product \<Rightarrow>
          let newStock = int64 (Stock product + quantity)
          in if newStock < 0 then (Some (Error ''insufficient stock''), s)
             else if fl 1 then (Some (Error ''failed to update stock''), s)
             else (None,
                   s\<lparr>products :=
                        map (\<lambda>p. if Product.ID p = Product.ID product \<and> \<not> Product.DeletedAt p
                                  then p\<lparr>Stock := newStock\<rparr> else p) (products s)\<rparr>))"

section \<open>OrderHandler.CancelOrder (handlers/order.go)\<close>

text \<open>
  The handler of \<open>POST /orders/:id/cancel\<close>, a route behind the authentication
  middleware only. \<open>ctx_user_id\<close> is the \<open>user_id\<close> entry of the request context
  (\<open>None\<close>: not set), \<open>param\<close> the \<open>:id\<close> segment of the path. A response is the HTTP
  status with its body.
\<close>

definition digit_of :: "char \<Rightarrow> nat option" where
  "digit_of c = (let n = (of_char c :: nat) in if 48 \<le> n \<and> n \<le> 57 then Some (n - 48) else None)"

fun parse_digits :: "string \<Rightarrow> nat \<Rightarrow> nat option" where
  "parse_digits [] acc = Some acc"
| "parse_digits (c # cs) acc =
     (case digit_of c of None \<Rightarrow> None | Some d \<Rightarrow> parse_digits cs (acc * 10 + d))"

text \<open>\<open>strconv.ParseUint(s, 10, 32)\<close>: decimal digits only, at least one, below \<open>2^32\<close>.\<close>

definition ParseUint32 :: "string \<Rightarrow> nat option" where
  "ParseUint32 str =
     (if str = [] then None
      else case parse_digits str 0 of
             None \<Rightarrow> None
           | Some n \<Rightarrow> if n < 2 ^ 32 then Some n else None)"

datatype 'f body =
    ErrorResponse string "error option"
  | SuccessResponse string "'f OrderResponse"

datatype 'f response = JSON nat "'f body"

definition OrderHandler_CancelOrder ::
  "faults \<Rightarrow> nat option \<Rightarrow> string \<Rightarrow> 'f store \<Rightarrow> 'f response \<times> 'f store" where
  "OrderHandler_CancelOrder fl ctx_user_id param s =
     (case ctx_user_id of
        None \<Rightarrow> (JSON 401 (ErrorResponse ''User not authenticated'' None), s)
      | Some _ \<Rightarrow>
          (case ParseUint32 param of
             None \<Rightarrow> (JSON 400 (ErrorResponse ''Invalid order ID'' (Some ParseError)), s)
           | Some orderID \<Rightarrow>
               (case CancelOrder fl orderID s of
                  (Inl err, s1) \<Rightarrow> (JSON 400 (ErrorResponse ''Failed to cancel order'' (Some err)), s1)
                | (Inr order, s1) \<Rightarrow>
                    (JSON 200 (SuccessResponse ''Order cancelled successfully'' order), s1))))"

section \<open>RoleService\<close>

text \<open>
  \<open>GetUserRole\<close> reads the first role assignment of the user that is not marked
  deleted, with its role preloaded; a role row that is missing leaves the zero value,
  whose name is empty.
\<close>

definition GetUserRole :: "faults \<Rightarrow> nat \<Rightarrow> nat \<Rightarrow> 'f store \<Rightarrow> error + string" where
  "GetUserRole fl k userID s =
     (case First fl k (\<lambda>ur. UserRole.UserID ur = userID \<and> \<not> UserRole.DeletedAt ur) (user_roles s) of
        ErrRecordNotFound \<Rightarrow> Inr ROLE_USER
      | ErrOther \<Rightarrow> Inl StoreError
      | Found userRole \<Rightarrow>
          Inr (case find (\<lambda>r. Role.ID r = RoleID userRole) (roles s) of
                 None \<Rightarrow> []
               | Some role \<Rightarrow> Name role))"

text \<open>
  \<open>tx.Where("user_id = ?", userID).Delete(&models.UserRole{})\<close> marks the assignments
  of the user deleted.
\<close>

definition delete_user_roles :: "nat \<Rightarrow> UserRole list \<Rightarrow> UserRole list" where
  "delete_user_roles userID rows =
     map (\<lambda>ur. if UserRole.UserID ur = userID \<and> \<not> UserRole.DeletedAt ur
                then ur\<lparr>UserRole.DeletedAt := True\<rparr> else ur) rows"


definition RemoveRole :: "faults \<Rightarrow> nat \<Rightarrow> nat \<Rightarrow> 'f store \<Rightarrow> error option \<times> 'f store" where
  "RemoveRole fl userID removedBy s =
     (case GetUserRole fl 0 removedBy s of
        Inl err \<Rightarrow> (Some (Error ''failed to verify remover role''), s)
      | Inr removerRole \<Rightarrow>
          if removerRole \<noteq> ROLE_SUPER_ADMIN
          then (Some (Error ''only super admin can remove roles''), s)
          else if userID = removedBy then (Some (Error ''cannot remove your own role''), s)
          else
            (case First fl 1 (\<lambda>u. User.ID u = userID) (users s) of
               Found user \<Rightarrow>
                 (case First fl 2 (\<lambda>ur. UserRole.UserID ur = userID \<and> \<not> UserRole.DeletedAt ur)
                         (user_roles s) of
                    ErrRecordNotFound \<Rightarrow> (Some (Error ''user has no role to remove''), s)
                  | ErrOther \<Rightarrow> (Some (Error ''failed to check user role''), s)
                  | Found userRole \<Rightarrow>
                      if fl 3 then (Some (Error ''failed to start transaction''), s)
                      else if fl 4 then (Some (Error ''failed to remove role''), s)
                      else if fl 5 then (Some (Error ''failed to commit role removal''), s)
                      else (None, s\<lparr>user_roles := delete_user_roles userID (user_roles s)\<rparr>))
             | _ \<Rightarrow> (Some (Error ''user not found''), s)))"

section \<open>The specification's vocabulary\<close>

text \<open>
  The notions that the properties below are stated in, written from the wording of the
  specification and kept apart from the code above. \<open>find_product\<close> is the product
  row that a request line refers to; a line is in order (\<open>line_ok\<close>) when that row
  exists with a stock of at least the requested quantity; \<open>line_error\<close> is the error
  of a line that is not.
\<close>

definition find_product :: "'f Product list \<Rightarrow> nat \<Rightarrow> 'f Product option" where
  "find_product ps pid = find (\<lambda>p. Product.ID p = pid \<and> \<not> Product.DeletedAt p) ps"

definition line_ok :: "'f Product list \<Rightarrow> OrderItemRequest \<Rightarrow> bool" where
  "line_ok ps l =
     (case find_product ps (OrderItemRequest.ProductID l) of
        None \<Rightarrow> False
      | Some p \<Rightarrow> OrderItemRequest.Quantity l \<le> Stock p)"

definition line_error :: "'f Product list \<Rightarrow> OrderItemRequest \<Rightarrow> error option" where
  "line_error ps l =
     (case find_product ps (OrderItemRequest.ProductID l) of
        None \<Rightarrow> Some (Error ''product not found'')
      | Some p \<Rightarrow>
          if Stock p < OrderItemRequest.Quantity l
          then Some (Error (''insufficient stock for product '' @ Title p))
          else None)"

text \<open>
  The total of an order: the amounts \<open>price \<times> quantity\<close> of its lines, added up from
  zero in the order of the request.
\<close>

definition line_amount ::
  "(int \<Rightarrow> 'f) \<Rightarrow> ('f::{zero,plus,times}) Product list \<Rightarrow> OrderItemRequest \<Rightarrow> 'f" where
  "line_amount float64 ps l =
     (case find_product ps (OrderItemRequest.ProductID l) of
        None \<Rightarrow> 0
      | Some p \<Rightarrow> Price p * float64 (OrderItemRequest.Quantity l))"

definition lines_total ::
  "(int \<Rightarrow> 'f) \<Rightarrow> ('f::{zero,plus,times}) Product list \<Rightarrow> OrderItemRequest list \<Rightarrow> 'f" where
  "lines_total float64 ps items = foldl (+) 0 (map (line_amount float64 ps) items)"

text \<open>The row of a line: its product, its quantity and the product's price, frozen.\<close>

definition line_row ::
  "('f::zero) Product list \<Rightarrow> nat \<Rightarrow> nat \<Rightarrow> OrderItemRequest \<Rightarrow> 'f OrderItem" where
  "line_row ps iid oid l =
     \<lparr>OrderItem.ID = iid, OrderID = oid,
      ProductID = OrderItemRequest.ProductID l,
      Quantity = OrderItemRequest.Quantity l,
      PriceAtMoment = (case find_product ps (OrderItemRequest.ProductID l) of
                         None \<Rightarrow> 0 | Some p \<Rightarrow> Price p)\<rparr>"

definition order_number :: "int \<Rightarrow> nat \<Rightarrow> string" where
  "order_number now userID = ''ORD-'' @ show_int now @ ''-'' @ show_nat userID"

definition created_order ::
  "(int \<Rightarrow> 'f) \<Rightarrow> int \<Rightarrow> nat \<Rightarrow> OrderItemRequest list \<Rightarrow> ('f::{zero,plus,times}) store \<Rightarrow> 'f Order" where
  "created_order float64 now userID items s =
     \<lparr>Order.ID = next_id (map Order.ID (orders s)), UserID = userID,
      OrderNumber = order_number now userID, Status = OrderStatusPending,
      TotalAmount = lines_total float64 (products s) items\<rparr>"

definition created_items :: "OrderItemRequest list \<Rightarrow> ('f::zero) store \<Rightarrow> 'f OrderItem list" where
  "created_items items s =
     map (\<lambda>(i, l). line_row (products s) (next_id (map OrderItem.ID (order_items s)) + i)
                       (next_id (map Order.ID (orders s))) l)
         (enumerate 0 items)"

text \<open>A store that serves every call.\<close>

definition no_faults :: faults where
  "no_faults k = False"

subsection \<open>The shop of the specification's examples\<close>

text \<open>
  Product A (price 10.00, stock 5) and product B (price 5.00, stock 1), amounts as
  reals with the exact conversion; a cart of two of A and one of B.
\<close>

definition product_A :: "real Product" where
  "product_A =
     \<lparr>Product.ID = 1, Title = ''A'', Price = 10, Stock = 5, OrderCount = 0, DeletedAt = False\<rparr>"

definition product_B :: "real Product" where
  "product_B =
     \<lparr>Product.ID = 2, Title = ''B'', Price = 5, Stock = 1, OrderCount = 0, DeletedAt = False\<rparr>"

definition shop :: "real store" where
  "shop =
     \<lparr>products = [product_A, product_B],
      orders = [],
      order_items = [],
      users = [\<lparr>User.ID = 7, Email = ''ann@example.org''\<rparr>,
               \<lparr>User.ID = 8, Email = ''bob@example.org''\<rparr>,
               \<lparr>User.ID = 9, Email = ''root@example.org''\<rparr>],
      roles = [\<lparr>Role.ID = 1, Name = ''super_admin''\<rparr>,
               \<lparr>Role.ID = 2, Name = ''seller''\<rparr>,
               \<lparr>Role.ID = 3, Name = ''user''\<rparr>],
      user_roles = [\<lparr>UserRole.ID = 1, UserID = 9, RoleID = 1, DeletedAt = False\<rparr>]\<rparr>"

definition cart :: "OrderItemRequest list" where
  "cart = [\<lparr>OrderItemRequest.ProductID = 1, Quantity = 2\<rparr>,
           \<lparr>OrderItemRequest.ProductID = 2, Quantity = 1\<rparr>]"

text \<open>
  Carts that are refused: three of B, of which one is in stock, after two of A; a
  product that does not exist after two of A; the same two offending lines together, the
  missing product first.
\<close>

definition cart_short :: "OrderItemRequest list" where
  "cart_short = [\<lparr>OrderItemRequest.ProductID = 1, Quantity = 2\<rparr>,
                 \<lparr>OrderItemRequest.ProductID = 2, Quantity = 3\<rparr>]"

definition cart_missing :: "OrderItemRequest list" where
  "cart_missing = [\<lparr>OrderItemRequest.ProductID = 1, Quantity = 2\<rparr>,
                   \<lparr>OrderItemRequest.ProductID = 5, Quantity = 1\<rparr>]"

definition cart_missing_then_short :: "OrderItemRequest list" where
  "cart_missing_then_short = [\<lparr>OrderItemRequest.ProductID = 5, Quantity = 1\<rparr>,
                              \<lparr>OrderItemRequest.ProductID = 2, Quantity = 3\<rparr>]"

text \<open>An error names a product when it is the stock error with the product's title.\<close>

definition names_product :: "error \<Rightarrow> 'f Product \<Rightarrow> bool" where
  "names_product e p \<longleftrightarrow> e = Error (''insufficient stock for product '' @ Title p)"

subsection \<open>Confirmation\<close>

text \<open>
  The lines of an order, what they order of a product (the quantities summed, and the
  number of lines), and the product row after the confirmation of these lines: the stock
  less the ordered quantity, the order count more by one for each line.
\<close>

definition order_lines :: "'f store \<Rightarrow> 'f Order \<Rightarrow> 'f OrderItem list" where
  "order_lines s order = filter (\<lambda>it. OrderItem.OrderID it = Order.ID order) (order_items s)"

definition ordered_quantity :: "'f OrderItem list \<Rightarrow> nat \<Rightarrow> int" where
  "ordered_quantity its pid =
     sum_list (map OrderItem.Quantity (filter (\<lambda>it. OrderItem.ProductID it = pid) its))"

definition ordered_lines :: "'f OrderItem list \<Rightarrow> nat \<Rightarrow> int" where
  "ordered_lines its pid = int (length (filter (\<lambda>it. OrderItem.ProductID it = pid) its))"

definition confirmed_product :: "'f OrderItem list \<Rightarrow> 'f Product \<Rightarrow> 'f Product" where
  "confirmed_product its p =
     (if Product.DeletedAt p then p
      else p\<lparr>Stock := Stock p - ordered_quantity its (Product.ID p),
             OrderCount := OrderCount p + ordered_lines its (Product.ID p)\<rparr>)"

subsection \<open>The example order\<close>

text \<open>
  The shop after the cart was ordered by user 7, and after that order was paid; the
  order row with a given status and its two line items.
\<close>

definition shop_pending :: "real store" where
  "shop_pending = snd (CreateOrder real_of_int no_faults 1700000000 7 cart shop)"

definition shop_paid :: "real store" where
  "shop_paid = snd (PayOrder no_faults 1 7 shop_pending)"

definition order_1 :: "OrderStatus \<Rightarrow> real Order" where
  "order_1 st = \<lparr>Order.ID = 1, UserID = 7, OrderNumber = ''ORD-1700000000-7'',
                  Status = st, TotalAmount = 25\<rparr>"

definition order_1_items :: "real OrderItem list" where
  "order_1_items =
     [\<lparr>OrderItem.ID = 1, OrderID = 1, ProductID = 1, Quantity = 2, PriceAtMoment = 10\<rparr>,
      \<lparr>OrderItem.ID = 2, OrderID = 1, ProductID = 2, Quantity = 1, PriceAtMoment = 5\<rparr>]"

subsection \<open>An order from creation to confirmation\<close>

text \<open>
  The order of a request once paid and once confirmed, and the store after each of the
  three steps creation, payment, confirmation.
\<close>

definition paid_order ::
  "(int \<Rightarrow> 'f) \<Rightarrow> int \<Rightarrow> nat \<Rightarrow> OrderItemRequest list \<Rightarrow> ('f::{zero,plus,times}) store \<Rightarrow> 'f Order" where
  "paid_order float64 now userID items s =
     (created_order float64 now userID items s)\<lparr>Order.Status := OrderStatusPaid\<rparr>"

definition confirmed_order ::
  "(int \<Rightarrow> 'f) \<Rightarrow> int \<Rightarrow> nat \<Rightarrow> OrderItemRequest list \<Rightarrow> ('f::{zero,plus,times}) store \<Rightarrow> 'f Order" where
  "confirmed_order float64 now userID items s =
     (created_order float64 now userID items s)\<lparr>Order.Status := OrderStatusConfirmed\<rparr>"

definition pending_store ::
  "(int \<Rightarrow> 'f) \<Rightarrow> int \<Rightarrow> nat \<Rightarrow> OrderItemRequest list \<Rightarrow> ('f::{zero,plus,times}) store \<Rightarrow> 'f store" where
  "pending_store float64 now userID items s =
     s\<lparr>orders := orders s @ [created_order float64 now userID items s],
       order_items := order_items s @ created_items items s\<rparr>"

definition paid_store ::
  "(int \<Rightarrow> 'f) \<Rightarrow> int \<Rightarrow> nat \<Rightarrow> OrderItemRequest list \<Rightarrow> ('f::{zero,plus,times}) store \<Rightarrow> 'f store" where
  "paid_store float64 now userID items s =
     s\<lparr>orders := orders s @ [paid_order float64 now userID items s],
       order_items := order_items s @ created_items items s\<rparr>"

definition confirmed_store ::
  "(int \<Rightarrow> 'f) \<Rightarrow> int \<Rightarrow> nat \<Rightarrow> OrderItemRequest list \<Rightarrow> ('f::{zero,plus,times}) store \<Rightarrow> 'f store" where
  "confirmed_store float64 now userID items s =
     s\<lparr>products := map (confirmed_product (created_items items s)) (products s),
       orders := orders s @ [confirmed_order float64 now userID items s],
       order_items := order_items s @ created_items items s\<rparr>"

text \<open>
  What the lines of a request ask of a product: the quantities summed, and the number
  of lines.
\<close>

definition requested_quantity :: "OrderItemRequest list \<Rightarrow> nat \<Rightarrow> int" where
  "requested_quantity items pid =
     sum_list (map OrderItemRequest.Quantity
                 (filter (\<lambda>l. OrderItemRequest.ProductID l = pid) items))"

definition requested_lines :: "OrderItemRequest list \<Rightarrow> nat \<Rightarrow> int" where
  "requested_lines items pid =
     int (length (filter (\<lambda>l. OrderItemRequest.ProductID l = pid) items))"

text \<open>
  Carts with two lines for product A, of which five are in stock: three and four, with
  one of B between them; three and six, with one of B between them; three and four
  alone.
\<close>

definition cart_mixed :: "OrderItemRequest list" where
  "cart_mixed = [\<lparr>OrderItemRequest.ProductID = 1, Quantity = 3\<rparr>,
                 \<lparr>OrderItemRequest.ProductID = 2, Quantity = 1\<rparr>,
                 \<lparr>OrderItemRequest.ProductID = 1, Quantity = 4\<rparr>]"

definition cart_over :: "OrderItemRequest list" where
  "cart_over = [\<lparr>OrderItemRequest.ProductID = 1, Quantity = 3\<rparr>,
                \<lparr>OrderItemRequest.ProductID = 2, Quantity = 1\<rparr>,
                \<lparr>OrderItemRequest.ProductID = 1, Quantity = 6\<rparr>]"

definition cart_twice :: "OrderItemRequest list" where
  "cart_twice = [\<lparr>OrderItemRequest.ProductID = 1, Quantity = 3\<rparr>,
                 \<lparr>OrderItemRequest.ProductID = 1, Quantity = 4\<rparr>]"

subsection \<open>Two orders for the last five of a product\<close>

text \<open>
  Users 7 and 8 each order five of product A, of which five are in stock, and each pays;
  neither order reserves stock, so both are accepted. \<open>shop_two_orders\<close> is the shop
  after the two payments, \<open>shop_sold_out\<close> the shop after the first of the two orders
  was confirmed.
\<close>

definition cart_five :: "OrderItemRequest list" where
  "cart_five = [\<lparr>OrderItemRequest.ProductID = 1, Quantity = 5\<rparr>]"

definition shop_two_orders :: "real store" where
  "shop_two_orders =
     snd (PayOrder no_faults 2 8
       (snd (PayOrder no_faults 1 7
         (snd (CreateOrder real_of_int no_faults 1700000060 8 cart_five
           (snd (CreateOrder real_of_int no_faults 1700000000 7 cart_five shop)))))))"

definition shop_sold_out :: "real store" where
  "shop_sold_out = snd (ConfirmOrder no_faults 1 shop_two_orders)"

definition five_of_A :: "nat \<Rightarrow> nat \<Rightarrow> string \<Rightarrow> OrderStatus \<Rightarrow> real Order" where
  "five_of_A oid uid num st =
     \<lparr>Order.ID = oid, UserID = uid, OrderNumber = num, Status = st, TotalAmount = 50\<rparr>"

definition five_of_A_items :: "real OrderItem list" where
  "five_of_A_items =
     [\<lparr>OrderItem.ID = 1, OrderID = 1, ProductID = 1, Quantity = 5, PriceAtMoment = 10\<rparr>,
      \<lparr>OrderItem.ID = 2, OrderID = 2, ProductID = 1, Quantity = 5, PriceAtMoment = 10\<rparr>]"

subsection \<open>The status machine\<close>

text \<open>
  The transitions of the specification and the status each leads to (\<open>edge\<close>, \<open>None\<close>
  where the transition is not defined from a status): pay, confirm, ship, deliver, cancel,
  and the user's status update, which is a cancellation when the requested status is
  \<open>cancelled\<close> and nothing otherwise. \<open>transition_op\<close> is the function of the service for
  a transition, \<open>refusal\<close> its validation error; \<open>PayOrder\<close> and \<open>UpdateOrderStatus\<close>
  look the order up with the requesting user (\<open>owner_checked\<close>).
\<close>

datatype transition = Pay | Confirm | Ship | Deliver | Cancel | Update OrderStatus

fun edge :: "transition \<Rightarrow> OrderStatus \<Rightarrow> OrderStatus option" where
  "edge Pay st = (if st = OrderStatusPending then Some OrderStatusPaid else None)"
| "edge Confirm st = (if st = OrderStatusPaid then Some OrderStatusConfirmed else None)"
| "edge Ship st = (if st = OrderStatusConfirmed then Some OrderStatusShipped else None)"
| "edge Deliver st = (if st = OrderStatusShipped then Some OrderStatusDelivered else None)"
| "edge Cancel st =
     (if st \<in> {OrderStatusPending, OrderStatusPaid, OrderStatusConfirmed, OrderStatusShipped}
      then Some OrderStatusCancelled else None)"
| "edge (Update req) st =
     (if req = OrderStatusCancelled \<and>
         st \<in> {OrderStatusPending, OrderStatusPaid, OrderStatusConfirmed, OrderStatusShipped}
      then Some OrderStatusCancelled else None)"

fun refusal :: "transition \<Rightarrow> error" where
  "refusal Pay = Error ''only pending orders can be paid''"
| "refusal Confirm = Error ''order must be paid before confirmation''"
| "refusal Ship = Error ''order must be confirmed before shipping''"
| "refusal Deliver = Error ''order must be shipped before delivery''"
| "refusal Cancel = Error ''order cannot be cancelled''"
| "refusal (Update req) =
     (if req \<noteq> OrderStatusCancelled then Error ''users can only cancel orders''
      else Error ''order cannot be cancelled'')"

fun transition_op ::
  "transition \<Rightarrow> faults \<Rightarrow> nat \<Rightarrow> nat \<Rightarrow> 'f store \<Rightarrow> (error + 'f OrderResponse) \<times> 'f store" where
  "transition_op Pay fl orderID userID s = PayOrder fl orderID userID s"
| "transition_op Confirm fl orderID userID s = ConfirmOrder fl orderID s"
| "transition_op Ship fl orderID userID s = ShipOrder fl orderID s"
| "transition_op Deliver fl orderID userID s = DeliverOrder fl orderID s"
| "transition_op Cancel fl orderID userID s = CancelOrder fl orderID s"
| "transition_op (Update req) fl orderID userID s = UpdateOrderStatus fl orderID userID req s"

fun owner_checked :: "transition \<Rightarrow> bool" where
  "owner_checked Pay = True"
| "owner_checked (Update req) = True"
| "owner_checked t = False"

text \<open>The example order cancelled after it was paid.\<close>

definition shop_cancelled :: "real store" where
  "shop_cancelled = snd (CancelOrder no_faults 1 shop_paid)"

subsection \<open>Role assignments\<close>




section \<open>Frame properties\<close>

lemma CreateOrder_products:
  "products (snd (CreateOrder float64 fl now userID items s)) = products s"
  by (simp add: CreateOrder_def Let_def split: sum.splits prod.splits found.splits)

lemma CancelOrder_products:
  "products (snd (CancelOrder fl orderID s)) = products s"
  by (simp add: CancelOrder_def Let_def split: found.splits)

text \<open>
  C7. \<open>CreateOrder\<close> and \<open>CancelOrder\<close> leave every product row as it was, whatever
  the request, the state of the order and the answers of the store: creation does not
  reserve stock, and cancellation restores none and changes no counter.
\<close>

theorem C7_create_and_cancel_keep_products:
  "products (snd (CreateOrder float64 fl now userID items s)) = products s \<and>
   products (snd (CancelOrder fl orderID s')) = products s'"
  by (simp add: CreateOrder_products CancelOrder_products)

section \<open>CreateOrder\<close>

lemma CreateOrder_loop_ok:
  "\<forall>l\<in>set items. line_error ps l = None \<Longrightarrow> \<forall>j<length items. \<not> fl (k + j) \<Longrightarrow>
   CreateOrder_loop float64 fl k ps items totalAmount acc =
     Inr (foldl (+) totalAmount (map (line_amount float64 ps) items), acc @ map (line_row ps 0 0) items)"
proof (induction items arbitrary: k totalAmount acc)
  case Nil
  then show ?case by simp
next
  case (Cons l items)
  from Cons.prems(1) obtain p where p: "find_product ps (OrderItemRequest.ProductID l) = Some p"
    and st: "\<not> Stock p < OrderItemRequest.Quantity l"
    by (auto simp: line_error_def split: option.splits if_splits)
  have f0: "\<not> fl k" using Cons.prems(2) by force
  have rest: "\<forall>j<length items. \<not> fl (Suc k + j)" using Cons.prems(2) by force
  have ok: "\<forall>l\<in>set items. line_error ps l = None" using Cons.prems(1) by simp
  show ?case
    using p st f0 Cons.IH [OF ok rest]
    by (simp add: First_def find_product_def line_amount_def line_row_def Let_def)
qed

lemma fold_max_ge: "a \<le> fold max ids (a::nat)"
  by (induction ids arbitrary: a) (auto intro: order_trans [OF max.cobounded2])

lemma fold_max_mem: "i \<in> set ids \<Longrightarrow> i \<le> fold max ids (a::nat)"
proof (induction ids arbitrary: a)
  case Nil then show ?case by simp
next
  case (Cons x xs)
  show ?case
  proof (cases "i = x")
    case True
    have "x \<le> max x a" by simp
    also have "\<dots> \<le> fold max xs (max x a)" by (rule fold_max_ge)
    finally show ?thesis using True by simp
  next
    case False
    with Cons.prems have "i \<in> set xs" by simp
    then show ?thesis using Cons.IH by simp
  qed
qed

lemma next_id_fresh: "i \<in> set ids \<Longrightarrow> i < next_id ids"
  by (simp add: next_id_def less_Suc_eq_le fold_max_mem)


lemma line_ok_error: "line_ok ps l \<longleftrightarrow> line_error ps l = None"
  by (simp add: line_ok_def line_error_def split: option.splits)

lemma find_fresh: "\<forall>r\<in>set rows. key r \<noteq> i \<Longrightarrow> find (\<lambda>r. key r = i) (rows @ [x]) = (if key x = i then Some x else None)"
  by (induction rows) auto

lemma filter_none: "\<forall>r\<in>set rows. \<not> P r \<Longrightarrow> filter P rows = []"
  by (induction rows) auto

lemma map_enumerate_map:
  "map f (enumerate n (map g xs)) = map (\<lambda>(i, x). f (i, g x)) (enumerate n xs)"
  by (induction xs arbitrary: n) auto

lemma CreateOrder_success:
  assumes nonempty: "items \<noteq> []"
    and lines: "\<forall>l\<in>set items. line_ok (products s) l"
    and store: "\<forall>k. \<not> fl k"
    and refint: "\<forall>it\<in>set (order_items s). OrderItem.OrderID it \<in> set (map Order.ID (orders s))"
    and free: "order_number now userID \<notin> set (map Order.OrderNumber (orders s))"
  shows "CreateOrder float64 fl now userID items s =
           (Inr (order_response (created_order float64 now userID items s)
                   (map item_response (created_items items s))),
            s\<lparr>orders := orders s @ [created_order float64 now userID items s],
              order_items := order_items s @ created_items items s\<rparr>)"
proof -
  let ?oid = "next_id (map Order.ID (orders s))"
  have free': "''ORD-'' @ show_int now @ ''-'' @ show_nat userID \<notin> Order.OrderNumber ` set (orders s)"
    using free by (simp add: order_number_def)
  have loop: "CreateOrder_loop float64 fl 0 (products s) items 0 [] =
      Inr (lines_total float64 (products s) items, map (line_row (products s) 0 0) items)"
    using CreateOrder_loop_ok [of items "products s" fl 0 float64 0 "[]"] lines store
    by (simp add: lines_total_def line_ok_error)
  have fresh: "\<forall>r\<in>set (orders s). Order.ID r \<noteq> ?oid"
    using next_id_fresh [of _ "map Order.ID (orders s)"] by fastforce
  have old: "\<forall>it\<in>set (order_items s). \<not> OrderItem.OrderID it = ?oid"
    using refint next_id_fresh [of _ "map Order.ID (orders s)"] by fastforce
  have rows: "insert_items (order_items s)
        (map (\<lambda>it. it\<lparr>OrderItem.OrderID := ?oid\<rparr>) (map (line_row (products s) 0 0) items)) =
      order_items s @ created_items items s"
    by (simp add: insert_items_def created_items_def line_row_def map_enumerate_map split_def)
  have new: "\<forall>it\<in>set (created_items items s). OrderItem.OrderID it = ?oid"
    by (auto simp: created_items_def line_row_def)
  have flt: "filter (\<lambda>it. OrderItem.OrderID it = ?oid) (order_items s @ created_items items s) =
      created_items items s"
    using old new by (simp add: filter_none)
  show ?thesis
    using nonempty store loop rows flt find_fresh [OF fresh] free'
    by (simp add: CreateOrder_def Let_def First_def created_order_def order_number_def)
qed



text \<open>
  Where the amounts are added exactly (in a commutative monoid, as the reals), the total
  is the sum of the line amounts.
\<close>

lemma foldl_plus_sum_list: "foldl (+) a xs = (a::'a::comm_monoid_add) + sum_list xs"
  by (induction xs arbitrary: a) (simp_all add: ac_simps)

lemma lines_total_exact:
  "lines_total float64 ps items = (\<Sum>l\<leftarrow>items. line_amount float64 ps (l::OrderItemRequest) :: 'a::semiring_0)"
  by (simp add: lines_total_def foldl_plus_sum_list)



lemma CreateOrder_loop_first_error:
  "\<forall>l\<in>set good. line_error ps l = None \<Longrightarrow> line_error ps bad = Some e \<Longrightarrow>
   \<forall>j\<le>length good. \<not> fl (k + j) \<Longrightarrow>
   CreateOrder_loop float64 fl k ps (good @ bad # rest) totalAmount acc = Inl e"
proof (induction good arbitrary: k totalAmount acc)
  case Nil
  then show ?case
    by (auto simp: First_def line_error_def find_product_def split: option.splits if_splits)
next
  case (Cons l good)
  from Cons.prems(1) obtain p where p: "find_product ps (OrderItemRequest.ProductID l) = Some p"
    and st: "\<not> Stock p < OrderItemRequest.Quantity l"
    by (auto simp: line_error_def split: option.splits if_splits)
  have f0: "\<not> fl k" using Cons.prems(3) by force
  have rest: "\<forall>j\<le>length good. \<not> fl (Suc k + j)" using Cons.prems(3) by force
  have ok: "\<forall>l\<in>set good. line_error ps l = None" using Cons.prems(1) by simp
  show ?case
    using p st f0 Cons.IH [OF ok Cons.prems(2) rest]
    by (simp add: First_def find_product_def Let_def)
qed

lemma CreateOrder_loop_some_error:
  "\<exists>l\<in>set items. line_error ps l \<noteq> None \<Longrightarrow>
   \<exists>e. CreateOrder_loop float64 fl k ps items totalAmount acc = Inl e"
proof (induction items arbitrary: k totalAmount acc)
  case Nil
  then show ?case by simp
next
  case (Cons l items)
  show ?case
  proof (cases "line_error ps l = None")
    case True
    with Cons.prems have "\<exists>l\<in>set items. line_error ps l \<noteq> None" by auto
    from Cons.IH [OF this] show ?thesis
      by (simp add: First_def Let_def split: option.splits)
  next
    case False
    then show ?thesis
      by (auto simp: First_def line_error_def find_product_def split: option.splits if_splits)
  qed
qed

lemma CreateOrder_loop_error:
  "CreateOrder_loop float64 fl 0 (products s) items 0 [] = Inl e \<Longrightarrow>
   CreateOrder float64 fl now userID items s = (Inl e, s)"
  by (simp add: CreateOrder_def)

text \<open>
  C2. A request with a line that is not in order is refused and the
  store is left as it was, whatever the store answers. The error is that of the first
  such line in the order of the request, when the store has served the calls up to it:
  \<open>product not found\<close> if its product does not exist, the stock error with the title
  of its product if that product is under-stocked.
\<close>

theorem C2_CreateOrder_first_offending_line:
  "((\<exists>l\<in>set items. \<not> line_ok (products s) l) \<longrightarrow>
      (\<exists>e. CreateOrder float64 fl now userID items s = (Inl e, s))) \<and>
   ((\<forall>l\<in>set good. line_ok (products s) l) \<and> (\<forall>j\<le>length good. \<not> fl' j) \<longrightarrow>
      (find_product (products s) (OrderItemRequest.ProductID bad) = None \<longrightarrow>
         CreateOrder float64 fl' now userID (good @ bad # rest) s =
           (Inl (Error ''product not found''), s)) \<and>
      (\<forall>p. find_product (products s) (OrderItemRequest.ProductID bad) = Some p \<and>
            Stock p < OrderItemRequest.Quantity bad \<longrightarrow>
         CreateOrder float64 fl' now userID (good @ bad # rest) s =
           (Inl (Error (''insufficient stock for product '' @ Title p)), s)))"
proof (intro conjI impI allI)
  assume "\<exists>l\<in>set items. \<not> line_ok (products s) l"
  then have "\<exists>l\<in>set items. line_error (products s) l \<noteq> None"
    by (simp add: line_ok_error)
  from CreateOrder_loop_some_error [OF this]
  obtain e where "CreateOrder_loop float64 fl 0 (products s) items 0 [] = Inl e" by blast
  then show "\<exists>e. CreateOrder float64 fl now userID items s = (Inl e, s)"
    by (auto dest: CreateOrder_loop_error)
next
  assume a: "(\<forall>l\<in>set good. line_ok (products s) l) \<and> (\<forall>j\<le>length good. \<not> fl' j)"
    and b: "find_product (products s) (OrderItemRequest.ProductID bad) = None"
  have "line_error (products s) bad = Some (Error ''product not found'')"
    using b by (simp add: line_error_def)
  with a show "CreateOrder float64 fl' now userID (good @ bad # rest) s =
           (Inl (Error ''product not found''), s)"
    by (intro CreateOrder_loop_error CreateOrder_loop_first_error) (simp_all add: line_ok_error)
next
  fix p
  assume a: "(\<forall>l\<in>set good. line_ok (products s) l) \<and> (\<forall>j\<le>length good. \<not> fl' j)"
    and b: "find_product (products s) (OrderItemRequest.ProductID bad) = Some p \<and>
            Stock p < OrderItemRequest.Quantity bad"
  have "line_error (products s) bad = Some (Error (''insufficient stock for product '' @ Title p))"
    using b by (simp add: line_error_def)
  with a show "CreateOrder float64 fl' now userID (good @ bad # rest) s =
           (Inl (Error (''insufficient stock for product '' @ Title p)), s)"
    by (intro CreateOrder_loop_error CreateOrder_loop_first_error) (simp_all add: line_ok_error)
qed


theorem C2_CreateOrder_first_offending_line_witness:
  "CreateOrder real_of_int no_faults 1700000000 7 cart_short shop =
     (Inl (Error ''insufficient stock for product B''), shop) \<and>
   CreateOrder real_of_int no_faults 1700000000 7 cart_missing shop =
     (Inl (Error ''product not found''), shop)"
proof -
  let ?a = "\<lparr>OrderItemRequest.ProductID = 1, Quantity = 2\<rparr>"
  have good: "\<forall>l\<in>set [?a]. line_ok (products shop) l"
    by (simp add: shop_def product_A_def line_ok_def find_product_def)
  have store: "\<forall>j\<le>length [?a]. \<not> no_faults j"
    by (simp add: no_faults_def)
  have short: "find_product (products shop) 2 = Some product_B \<and> Stock product_B < 3"
    by (simp add: shop_def product_A_def product_B_def find_product_def)
  have missing: "find_product (products shop) 5 = None"
    by (simp add: shop_def product_A_def product_B_def find_product_def)
  have "CreateOrder real_of_int no_faults 1700000000 7 cart_short shop =
      (Inl (Error ''insufficient stock for product B''), shop)"
    using C2_CreateOrder_first_offending_line
      [of "[]" shop real_of_int no_faults 1700000000 7 "[?a]" no_faults
          "\<lparr>OrderItemRequest.ProductID = 2, Quantity = 3\<rparr>" "[]"]
      good store short
    by (simp add: cart_short_def product_B_def)
  moreover have "CreateOrder real_of_int no_faults 1700000000 7 cart_missing shop =
      (Inl (Error ''product not found''), shop)"
    using C2_CreateOrder_first_offending_line
      [of "[]" shop real_of_int no_faults 1700000000 7 "[?a]" no_faults
          "\<lparr>OrderItemRequest.ProductID = 5, Quantity = 1\<rparr>" "[]"]
      good store missing
    by (simp add: cart_missing_def)
  ultimately show ?thesis by simp
qed

text \<open>
  An under-stocked product is not always the one the error names, nor is the error then
  the stock error: B is under-stocked for the second line of this cart, and the error is
  that of the missing product of the first line.
\<close>

theorem C2_error_names_understocked_product_counterexample:
  "find_product (products shop) 2 = Some product_B \<and>
   Stock product_B < 3 \<and>
   CreateOrder real_of_int no_faults 1700000000 7 cart_missing_then_short shop =
     (Inl (Error ''product not found''), shop) \<and>
   \<not> names_product (Error ''product not found'') product_B"
  by (simp add: CreateOrder_def First_def no_faults_def cart_missing_then_short_def shop_def
      product_A_def product_B_def find_product_def names_product_def)

section \<open>ConfirmOrder\<close>

lemma confirmed_product_Nil: "confirmed_product [] p = p"
  by (simp add: confirmed_product_def ordered_quantity_def ordered_lines_def)

lemma confirmed_product_Cons:
  "confirmed_product (it # its) p =
     confirmed_product its
       (if Product.ID p = OrderItem.ProductID it \<and> \<not> Product.DeletedAt p
        then p\<lparr>Stock := Stock p - OrderItem.Quantity it, OrderCount := OrderCount p + 1\<rparr>
        else p)"
  by (simp add: confirmed_product_def ordered_quantity_def ordered_lines_def)

lemma ConfirmOrder_loop_ok:
  "\<forall>j. \<not> fl j \<Longrightarrow> ConfirmOrder_loop fl k its ps = Inr (map (confirmed_product its) ps)"
proof (induction its arbitrary: k ps)
  case Nil
  then show ?case by (simp add: confirmed_product_Nil)
next
  case (Cons it its)
  have step: "map (confirmed_product its)
        (update_order_count (OrderItem.ProductID it)
           (update_stock (OrderItem.ProductID it) (OrderItem.Quantity it) ps)) =
      map (confirmed_product (it # its)) ps"
    by (simp add: update_order_count_def update_stock_def confirmed_product_Cons)
  show ?case
    using Cons.prems Cons.IH [OF Cons.prems] step by (simp add: Let_def)
qed

lemma find_key: "find (\<lambda>r. key r = i) rows = Some x \<Longrightarrow> key x = i"
  by (induction rows) (auto split: if_splits)

lemma find_Save:
  "find (\<lambda>r. Order.ID r = i) rows = Some order \<Longrightarrow> Order.ID order1 = i \<Longrightarrow>
   find (\<lambda>r. Order.ID r = i) (Save order1 rows) = Some order1"
  by (induction rows) (auto simp: Save_def split: if_splits)



lemma show_1700000000: "show_int 1700000000 = ''1700000000''" "show_nat 7 = ''7''"
  by (simp_all add: show_int_def show_nat.simps)

lemma shop_pending_eq:
  "shop_pending = shop\<lparr>orders := [order_1 OrderStatusPending], order_items := order_1_items\<rparr>"
  by (simp add: shop_pending_def CreateOrder_def Let_def First_def no_faults_def cart_def shop_def
      product_A_def product_B_def insert_items_def next_id_def show_1700000000
      order_1_def order_1_items_def)

lemma shop_paid_eq:
  "shop_paid = shop\<lparr>orders := [order_1 OrderStatusPaid], order_items := order_1_items\<rparr>"
  by (simp add: shop_paid_def shop_pending_eq PayOrder_def Let_def First_def no_faults_def Save_def
      order_1_def)


section \<open>A second order in the same second\<close>


text \<open>
  So is a request with two lines for product A, each within the stock of five.
\<close>

theorem C10_same_product_same_second_counterexample:
  "find_product (products shop_pending) 1 = Some product_A \<and>
   3 \<le> Stock product_A \<and> 4 \<le> Stock product_A \<and>
   CreateOrder real_of_int no_faults 1700000000 7 cart_twice shop_pending =
     (Inl (Error ''failed to create order''), shop_pending)"
  by (simp add: CreateOrder_def Let_def First_def no_faults_def cart_twice_def shop_pending_eq
      shop_def product_A_def product_B_def find_product_def order_1_def show_1700000000)

section \<open>From creation to confirmation\<close>

lemma find_fresh_cond:
  "\<forall>r\<in>set rows. key r \<noteq> i \<Longrightarrow>
   find (\<lambda>r. key r = i \<and> Q r) (rows @ [x]) = (if key x = i \<and> Q x then Some x else None)"
  by (induction rows) auto

lemma Save_fresh:
  "\<forall>r\<in>set rows. Order.ID r \<noteq> Order.ID x \<Longrightarrow> Order.ID y = Order.ID x \<Longrightarrow>
   Save y (rows @ [x]) = rows @ [y]"
  by (induction rows) (auto simp: Save_def)

lemma created_order_fresh:
  "\<forall>r\<in>set (orders s). Order.ID r \<noteq> next_id (map Order.ID (orders s))"
  using next_id_fresh [of _ "map Order.ID (orders s)"] by fastforce

lemma created_items_lines:
  assumes "\<forall>it\<in>set (order_items s). OrderItem.OrderID it \<in> set (map Order.ID (orders s))"
  shows "filter (\<lambda>it. OrderItem.OrderID it = next_id (map Order.ID (orders s)))
           (order_items s @ created_items items s) = created_items items s"
proof -
  have old: "\<forall>it\<in>set (order_items s). \<not> OrderItem.OrderID it = next_id (map Order.ID (orders s))"
    using assms next_id_fresh [of _ "map Order.ID (orders s)"] by fastforce
  have new: "\<forall>it\<in>set (created_items items s). OrderItem.OrderID it = next_id (map Order.ID (orders s))"
    by (auto simp: created_items_def line_row_def)
  show ?thesis using old new by (simp add: filter_none)
qed

lemma create_pay_confirm:
  assumes nonempty: "items \<noteq> []"
    and lines: "\<forall>l\<in>set items. line_ok (products s) l"
    and store: "\<forall>k. \<not> fl k"
    and refint: "\<forall>it\<in>set (order_items s). OrderItem.OrderID it \<in> set (map Order.ID (orders s))"
    and free: "order_number now userID \<notin> set (map Order.OrderNumber (orders s))"
  shows "CreateOrder float64 fl now userID items s =
           (Inr (order_response (created_order float64 now userID items s)
                   (map item_response (created_items items s))),
            pending_store float64 now userID items s)"
    and "PayOrder fl (next_id (map Order.ID (orders s))) userID
             (pending_store float64 now userID items s) =
           (Inr (order_response (paid_order float64 now userID items s) []),
            paid_store float64 now userID items s)"
    and "ConfirmOrder fl (next_id (map Order.ID (orders s)))
             (paid_store float64 now userID items s) =
           (Inr (order_response (confirmed_order float64 now userID items s) []),
            confirmed_store float64 now userID items s)"
proof -
  let ?oid = "next_id (map Order.ID (orders s))"
  let ?new = "created_order float64 now userID items s"
  let ?paid = "paid_order float64 now userID items s"
  show "CreateOrder float64 fl now userID items s =
           (Inr (order_response ?new (map item_response (created_items items s))),
            pending_store float64 now userID items s)"
    using CreateOrder_success [OF nonempty lines store refint free] by (simp add: pending_store_def)
  have id: "Order.ID ?new = ?oid" "Order.UserID ?new = userID"
    "Order.Status ?new = OrderStatusPending"
    by (simp_all add: created_order_def)
  have fresh: "\<forall>r\<in>set (orders s). Order.ID r \<noteq> ?oid"
    by (rule created_order_fresh)
  have fresh': "\<forall>r\<in>set (orders s). Order.ID r \<noteq> Order.ID ?new"
    using fresh id by simp
  show "PayOrder fl ?oid userID (pending_store float64 now userID items s) =
           (Inr (order_response ?paid []), paid_store float64 now userID items s)"
    using store id find_fresh_cond [OF fresh] Save_fresh [OF fresh']
    by (simp add: PayOrder_def First_def Let_def pending_store_def paid_store_def paid_order_def)
  have pid: "Order.ID ?paid = ?oid"
    by (simp add: paid_order_def id)
  have fresh'': "\<forall>r\<in>set (orders s). Order.ID r \<noteq> Order.ID ?paid"
    using fresh pid by simp
  have found: "find (\<lambda>r. Order.ID r = ?oid) (orders (paid_store float64 now userID items s)) =
      Some ?paid"
    using find_fresh [OF fresh] pid by (simp add: paid_store_def)
  have lns: "filter (\<lambda>it. OrderItem.OrderID it = Order.ID ?paid)
        (order_items (paid_store float64 now userID items s)) = created_items items s"
    using created_items_lines [OF refint] pid by (simp add: paid_store_def)
  have paid: "Order.Status ?paid = OrderStatusPaid"
    by (simp add: paid_order_def)
  have loop: "ConfirmOrder_loop fl 1 (created_items items s) (products s) =
      Inr (map (confirmed_product (created_items items s)) (products s))"
    using store by (rule ConfirmOrder_loop_ok)
  show "ConfirmOrder fl ?oid (paid_store float64 now userID items s) =
           (Inr (order_response (confirmed_order float64 now userID items s) []),
            confirmed_store float64 now userID items s)"
    using store found lns paid loop Save_fresh [OF fresh'']
    by (simp add: ConfirmOrder_def First_def Let_def paid_store_def confirmed_store_def
        confirmed_order_def paid_order_def)
qed

lemma ordered_quantity_rows:
  "sum_list (map OrderItem.Quantity (filter (\<lambda>it. OrderItem.ProductID it = i)
       (map (\<lambda>(j, l). line_row ps (b + j) oid l) (enumerate n items)))) =
   sum_list (map OrderItemRequest.Quantity (filter (\<lambda>l. OrderItemRequest.ProductID l = i) items))"
  by (induction items arbitrary: n) (simp_all add: line_row_def)

lemma ordered_lines_rows:
  "length (filter (\<lambda>it. OrderItem.ProductID it = i)
       (map (\<lambda>(j, l). line_row ps (b + j) oid l) (enumerate n items))) =
   length (filter (\<lambda>l. OrderItemRequest.ProductID l = i) items)"
  by (induction items arbitrary: n) (simp_all add: line_row_def)

lemma ordered_created_items:
  "ordered_quantity (created_items items s) i = requested_quantity items i"
  "ordered_lines (created_items items s) i = requested_lines items i"
  unfolding ordered_quantity_def ordered_lines_def created_items_def
    requested_quantity_def requested_lines_def
  by (simp_all only: ordered_quantity_rows ordered_lines_rows)

lemma confirmed_product_requested:
  "confirmed_product (created_items items s) q =
     (if Product.DeletedAt q then q
      else q\<lparr>Stock := Stock q - requested_quantity items (Product.ID q),
             OrderCount := OrderCount q + requested_lines items (Product.ID q)\<rparr>)"
  by (simp add: confirmed_product_def ordered_created_items)

text \<open>
  C10. \<open>CreateOrder\<close> decides on each line alone, against the stock that the store
  holds, and keeps no running total. For a request that is not empty, whose order number
  no order of the store carries, and a store that serves every call: the request is
  accepted if every line refers to an existing product stocked with at least the
  quantity of that line, whatever the lines for one product sum to, and refused
  otherwise, with the stock error of the first line that alone exceeds the stock of its
  product, whatever the lines before it have asked of that product. Once the accepted
  order is paid and confirmed, each product's stock is less by the quantity of every
  line for it and its order count more by the number of those lines.
\<close>

theorem C10_lines_checked_independently:
  assumes "items \<noteq> []"
    and "\<forall>k. \<not> fl k"
    and "\<forall>it\<in>set (order_items s). OrderItem.OrderID it \<in> set (map Order.ID (orders s))"
    and "order_number now userID \<notin> set (map Order.OrderNumber (orders s))"
  shows "((\<forall>l\<in>set items. line_ok (products s) l) \<longrightarrow>
            CreateOrder float64 fl now userID items s =
              (Inr (order_response (created_order float64 now userID items s)
                      (map item_response (created_items items s))),
               pending_store float64 now userID items s) \<and>
            PayOrder fl (next_id (map Order.ID (orders s))) userID
                (pending_store float64 now userID items s) =
              (Inr (order_response (paid_order float64 now userID items s) []),
               paid_store float64 now userID items s) \<and>
            ConfirmOrder fl (next_id (map Order.ID (orders s)))
                (paid_store float64 now userID items s) =
              (Inr (order_response (confirmed_order float64 now userID items s) []),
               confirmed_store float64 now userID items s) \<and>
            products (confirmed_store float64 now userID items s) =
              map (\<lambda>q. if Product.DeletedAt q then q
                        else q\<lparr>Stock := Stock q - requested_quantity items (Product.ID q),
                               OrderCount := OrderCount q + requested_lines items (Product.ID q)\<rparr>)
                  (products s)) \<and>
         (\<not> (\<forall>l\<in>set items. line_ok (products s) l) \<longrightarrow>
            (\<exists>e. CreateOrder float64 fl' now userID items s = (Inl e, s))) \<and>
         (\<forall>good bad rest p.
            items = good @ bad # rest \<and> (\<forall>l\<in>set good. line_ok (products s) l) \<and>
            find_product (products s) (OrderItemRequest.ProductID bad) = Some p \<and>
            Stock p < OrderItemRequest.Quantity bad \<longrightarrow>
            CreateOrder float64 fl now userID items s =
              (Inl (Error (''insufficient stock for product '' @ Title p)), s))"
proof (intro conjI impI allI)
  assume lines: "\<forall>l\<in>set items. line_ok (products s) l"
  note chain = create_pay_confirm [OF assms(1) lines assms(2,3,4), of float64]
  show "CreateOrder float64 fl now userID items s =
              (Inr (order_response (created_order float64 now userID items s)
                      (map item_response (created_items items s))),
               pending_store float64 now userID items s)"
    by (rule chain(1))
  show "PayOrder fl (next_id (map Order.ID (orders s))) userID
                (pending_store float64 now userID items s) =
              (Inr (order_response (paid_order float64 now userID items s) []),
               paid_store float64 now userID items s)"
    by (rule chain(2))
  show "ConfirmOrder fl (next_id (map Order.ID (orders s)))
                (paid_store float64 now userID items s) =
              (Inr (order_response (confirmed_order float64 now userID items s) []),
               confirmed_store float64 now userID items s)"
    by (rule chain(3))
  have "products (confirmed_store float64 now userID items s) =
      map (confirmed_product (created_items items s)) (products s)"
    by (simp add: confirmed_store_def)
  also have "\<dots> = map (\<lambda>q. if Product.DeletedAt q then q
                        else q\<lparr>Stock := Stock q - requested_quantity items (Product.ID q),
                               OrderCount := OrderCount q + requested_lines items (Product.ID q)\<rparr>)
                  (products s)"
    by (rule map_cong [OF refl]) (rule confirmed_product_requested)
  finally show "products (confirmed_store float64 now userID items s) =
              map (\<lambda>q. if Product.DeletedAt q then q
                        else q\<lparr>Stock := Stock q - requested_quantity items (Product.ID q),
                               OrderCount := OrderCount q + requested_lines items (Product.ID q)\<rparr>)
                  (products s)" .
next
  assume "\<not> (\<forall>l\<in>set items. line_ok (products s) l)"
  then have "\<exists>l\<in>set items. line_error (products s) l \<noteq> None"
    by (simp add: line_ok_error)
  from CreateOrder_loop_some_error [OF this]
  obtain e where "CreateOrder_loop float64 fl' 0 (products s) items 0 [] = Inl e" by blast
  then show "\<exists>e. CreateOrder float64 fl' now userID items s = (Inl e, s)"
    by (auto dest: CreateOrder_loop_error)
next
  fix good bad rest p
  assume a: "items = good @ bad # rest \<and> (\<forall>l\<in>set good. line_ok (products s) l) \<and>
            find_product (products s) (OrderItemRequest.ProductID bad) = Some p \<and>
            Stock p < OrderItemRequest.Quantity bad"
  then have err: "line_error (products s) bad =
      Some (Error (''insufficient stock for product '' @ Title p))"
    by (simp add: line_error_def)
  have "CreateOrder_loop float64 fl 0 (products s) (good @ bad # rest) 0 [] =
      Inl (Error (''insufficient stock for product '' @ Title p))"
    using a assms(2) by (intro CreateOrder_loop_first_error [OF _ err]) (simp_all add: line_ok_error)
  then show "CreateOrder float64 fl now userID items s =
              (Inl (Error (''insufficient stock for product '' @ Title p)), s)"
    using a by (simp add: CreateOrder_loop_error)
qed

text \<open>
  Lines of three and four of A, with one of B between them, are accepted against a stock
  of five of A, which ends at -2 with two more orders counted; lines of three and six
  are refused for the six.
\<close>

theorem C10_lines_checked_independently_witness:
  "products (snd (ConfirmOrder no_faults 1 (snd (PayOrder no_faults 1 7
      (snd (CreateOrder real_of_int no_faults 1700000000 7 cart_mixed shop)))))) =
     [product_A\<lparr>Stock := - 2, OrderCount := 2\<rparr>, product_B\<lparr>Stock := 0, OrderCount := 1\<rparr>] \<and>
   map Order.Status (orders (snd (ConfirmOrder no_faults 1 (snd (PayOrder no_faults 1 7
      (snd (CreateOrder real_of_int no_faults 1700000000 7 cart_mixed shop))))))) =
     [OrderStatusConfirmed] \<and>
   CreateOrder real_of_int no_faults 1700000000 7 cart_over shop =
     (Inl (Error ''insufficient stock for product A''), shop)"
proof -
  have h1: "cart_mixed \<noteq> []" "cart_over \<noteq> []" by (simp_all add: cart_mixed_def cart_over_def)
  have h2: "\<forall>k. \<not> no_faults k" by (simp add: no_faults_def)
  have h3: "\<forall>it\<in>set (order_items shop). OrderItem.OrderID it \<in> set (map Order.ID (orders shop))"
    by (simp add: shop_def)
  have h4: "order_number 1700000000 7 \<notin> set (map Order.OrderNumber (orders shop))"
    by (simp add: shop_def)
  have ok: "\<forall>l\<in>set cart_mixed. line_ok (products shop) l"
    by (simp add: cart_mixed_def shop_def product_A_def product_B_def line_ok_def find_product_def)
  have n: "next_id (map Order.ID (orders shop)) = 1"
    by (simp add: shop_def next_id_def)
  have good: "\<forall>l\<in>set [\<lparr>OrderItemRequest.ProductID = 1, Quantity = 3\<rparr>,
                         \<lparr>OrderItemRequest.ProductID = 2, Quantity = 1\<rparr>]. line_ok (products shop) l"
    by (simp add: shop_def product_A_def product_B_def line_ok_def find_product_def)
  have bad: "find_product (products shop) 1 = Some product_A" "Stock product_A < 6"
    by (simp_all add: shop_def product_A_def find_product_def)
  have accepted: "products (snd (ConfirmOrder no_faults 1 (snd (PayOrder no_faults 1 7
      (snd (CreateOrder real_of_int no_faults 1700000000 7 cart_mixed shop)))))) =
     [product_A\<lparr>Stock := - 2, OrderCount := 2\<rparr>, product_B\<lparr>Stock := 0, OrderCount := 1\<rparr>]"
    "map Order.Status (orders (snd (ConfirmOrder no_faults 1 (snd (PayOrder no_faults 1 7
      (snd (CreateOrder real_of_int no_faults 1700000000 7 cart_mixed shop))))))) =
     [OrderStatusConfirmed]"
    using C10_lines_checked_independently [OF h1(1) h2 h3 h4, of real_of_int no_faults] ok
    by (simp_all add: n)
       (simp_all add: confirmed_store_def confirmed_order_def created_order_def
          requested_quantity_def requested_lines_def shop_def cart_mixed_def
          product_A_def product_B_def)
  have refused: "CreateOrder real_of_int no_faults 1700000000 7 cart_over shop =
     (Inl (Error ''insufficient stock for product A''), shop)"
  proof -
    let ?six = "\<lparr>OrderItemRequest.ProductID = 1, Quantity = 6\<rparr>"
    have split: "cart_over = [\<lparr>OrderItemRequest.ProductID = 1, Quantity = 3\<rparr>,
                              \<lparr>OrderItemRequest.ProductID = 2, Quantity = 1\<rparr>] @ ?six # []"
      by (simp add: cart_over_def)
    have six: "find_product (products shop) (OrderItemRequest.ProductID ?six) = Some product_A"
      "Stock product_A < OrderItemRequest.Quantity ?six"
      using bad by simp_all
    from C10_lines_checked_independently [OF h1(2) h2 h3 h4, of real_of_int no_faults]
    have "CreateOrder real_of_int no_faults 1700000000 7 cart_over shop =
        (Inl (Error (''insufficient stock for product '' @ Title product_A)), shop)"
      using split good six by blast
    then show ?thesis by (simp add: product_A_def)
  qed
  show ?thesis using accepted refused by simp
qed

section \<open>Stock below zero\<close>

lemma show_1700000060: "show_int 1700000060 = ''1700000060''" "show_nat 8 = ''8''"
  by (simp_all add: show_int_def show_nat.simps)

lemma shop_two_orders_eq:
  "shop_two_orders =
     shop\<lparr>orders := [five_of_A 1 7 ''ORD-1700000000-7'' OrderStatusPaid,
                      five_of_A 2 8 ''ORD-1700000060-8'' OrderStatusPaid],
          order_items := five_of_A_items\<rparr>"
  by (simp add: shop_two_orders_def CreateOrder_def PayOrder_def Save_def Let_def First_def
      no_faults_def cart_five_def shop_def product_A_def product_B_def insert_items_def
      next_id_def show_1700000000 show_1700000060 five_of_A_def five_of_A_items_def)

lemma shop_sold_out_eq:
  "shop_sold_out =
     shop\<lparr>products := [product_A\<lparr>Stock := 0, OrderCount := 1\<rparr>, product_B],
          orders := [five_of_A 1 7 ''ORD-1700000000-7'' OrderStatusConfirmed,
                     five_of_A 2 8 ''ORD-1700000060-8'' OrderStatusPaid],
          order_items := five_of_A_items\<rparr>"
  by (simp add: shop_sold_out_def shop_two_orders_eq ConfirmOrder_def Save_def Let_def First_def
      no_faults_def shop_def product_A_def product_B_def update_stock_def update_order_count_def
      five_of_A_def five_of_A_items_def)

text \<open>
  C4. The stock of a product does become negative. \<open>ConfirmOrder\<close> subtracts the
  quantity of each line without comparing it with the stock: when the second of the two
  orders for five of A is confirmed, the stock of A is 0, and the confirmation succeeds
  and leaves it at -5.
\<close>

theorem C4_ConfirmOrder_stock_negative:
  "ConfirmOrder no_faults 2 shop_sold_out =
     (Inr \<lparr>OrderResponse.ID = 2, UserID = 8, OrderNumber = ''ORD-1700000060-8'',
            Status = OrderStatusConfirmed, TotalAmount = 50, OrderItems = []\<rparr>,
      shop\<lparr>products := [product_A\<lparr>Stock := - 5, OrderCount := 2\<rparr>, product_B],
           orders := [five_of_A 1 7 ''ORD-1700000000-7'' OrderStatusConfirmed,
                      five_of_A 2 8 ''ORD-1700000060-8'' OrderStatusConfirmed],
           order_items := five_of_A_items\<rparr>)"
  by (simp add: shop_sold_out_eq ConfirmOrder_def Save_def Let_def First_def
      no_faults_def shop_def product_A_def product_B_def update_stock_def update_order_count_def
      five_of_A_def five_of_A_items_def order_response_def)

text \<open>
  The stock adjustment of the catalogue service does refuse a change that would leave a
  negative stock: it keeps every stock non-negative.
\<close>

lemma UpdateStock_keeps_stock_nonneg:
  assumes "\<forall>p\<in>set (products s). 0 \<le> Stock p"
  shows "\<forall>p\<in>set (products (snd (UpdateStock fl productID quantity s))). 0 \<le> Stock p"
  using assms by (auto simp: UpdateStock_def Let_def split: found.splits)

section \<open>Status transitions\<close>

lemma find_owned:
  "find (\<lambda>r. Order.ID r = i) rows = Some order \<Longrightarrow> Order.UserID order = u \<Longrightarrow>
   find (\<lambda>r. Order.ID r = i \<and> Order.UserID r = u) rows = Some order"
  by (induction rows) (auto split: if_splits)

lemma find_not_owned:
  "find (\<lambda>r. Order.ID r = i) rows = Some order \<Longrightarrow> Order.UserID order \<noteq> u \<Longrightarrow>
   distinct (map Order.ID rows) \<Longrightarrow>
   find (\<lambda>r. Order.ID r = i \<and> Order.UserID r = u) rows = None"
proof (induction rows)
  case Nil
  then show ?case by simp
next
  case (Cons x rows)
  show ?case
  proof (cases "Order.ID x = i")
    case True
    with Cons.prems have x: "x = order" and "i \<notin> Order.ID ` set rows" by auto
    then have "\<forall>r\<in>set rows. Order.ID r \<noteq> i" by blast
    then show ?thesis using x Cons.prems(2) by (auto simp: find_None_iff)
  next
    case False
    then show ?thesis using Cons by simp
  qed
qed

lemma transition_refused:
  assumes "find (\<lambda>r. Order.ID r = orderID) (orders s) = Some order"
    and "owner_checked t \<longrightarrow> Order.UserID order = userID" and "\<not> fl 0"
    and "edge t (Order.Status order) = None"
  shows "transition_op t fl orderID userID s = (Inl (refusal t), s)"
  using assms(2,3,4) assms(1) find_owned [OF assms(1), of userID]
  by (cases t; cases "Order.Status order")
     (auto simp: PayOrder_def ConfirmOrder_def ShipOrder_def DeliverOrder_def
        CancelOrder_def UpdateOrderStatus_def First_def Let_def split: if_splits)

lemma ConfirmOrder_paid:
  assumes "find (\<lambda>r. Order.ID r = orderID) (orders s) = Some order"
    and "Order.Status order = OrderStatusPaid" and "\<forall>k. \<not> fl k"
  shows "ConfirmOrder fl orderID s =
           (Inr (order_response (order\<lparr>Order.Status := OrderStatusConfirmed\<rparr>) []),
            s\<lparr>products := map (confirmed_product (order_lines s order)) (products s),
              orders := Save (order\<lparr>Order.Status := OrderStatusConfirmed\<rparr>) (orders s)\<rparr>)"
  using assms ConfirmOrder_loop_ok [of fl 1 "order_lines s order" "products s"]
  by (simp add: ConfirmOrder_def First_def Let_def order_lines_def)

lemma transition_taken:
  assumes "find (\<lambda>r. Order.ID r = orderID) (orders s) = Some order"
    and "owner_checked t \<longrightarrow> Order.UserID order = userID" and "\<forall>k. \<not> fl k"
    and "edge t (Order.Status order) = Some st"
  shows "fst (transition_op t fl orderID userID s) =
           Inr (order_response (order\<lparr>Order.Status := st\<rparr>) []) \<and>
         orders (snd (transition_op t fl orderID userID s)) =
           Save (order\<lparr>Order.Status := st\<rparr>) (orders s)"
proof (cases t)
  case Confirm
  with assms(4) have "Order.Status order = OrderStatusPaid" "st = OrderStatusConfirmed"
    by (simp_all split: if_splits)
  then show ?thesis
    using Confirm ConfirmOrder_paid [OF assms(1) _ assms(3)] by simp
qed (use assms(2,3,4) assms(1) find_owned [OF assms(1), of userID] in
      \<open>auto simp: PayOrder_def ShipOrder_def DeliverOrder_def CancelOrder_def
         UpdateOrderStatus_def First_def Let_def split: if_splits\<close>)

lemma transition_only_along_edge:
  assumes "find (\<lambda>r. Order.ID r = orderID) (orders s) = Some order"
    and "owner_checked t \<longrightarrow> Order.UserID order = userID"
    and "transition_op t fl orderID userID s = (Inr r, s')"
  shows "edge t (Order.Status order) = Some (OrderResponse.Status r)"
  using assms(2,3) assms(1) find_owned [OF assms(1), of userID]
  by (cases t; cases "Order.Status order")
     (auto simp: PayOrder_def ConfirmOrder_def ShipOrder_def DeliverOrder_def
        CancelOrder_def UpdateOrderStatus_def First_def Let_def order_response_def
        split: if_splits sum.splits)

lemma transition_error_keeps_store:
  "transition_op t fl orderID userID s = (Inl e, s') \<Longrightarrow> s' = s"
  by (cases t)
     (auto simp: PayOrder_def ConfirmOrder_def ShipOrder_def DeliverOrder_def
        CancelOrder_def UpdateOrderStatus_def Let_def
        split: if_splits sum.splits found.splits)

lemma PayOrder_not_owner:
  assumes "find (\<lambda>r. Order.ID r = orderID) (orders s) = Some order"
    and "Order.UserID order \<noteq> userID" and "distinct (map Order.ID (orders s))" and "\<not> fl 0"
  shows "PayOrder fl orderID userID s = (Inl (Error ''order not found''), s)"
  using find_not_owned [OF assms(1,2,3)] assms(4) by (simp add: PayOrder_def First_def)

text \<open>
  C5. For an order that the store holds, requested by its owner where the function asks
  for the user: a transition defined from the order's status succeeds when the store
  serves every call, and the order then has the status the edge leads to; a transition
  not defined from the order's status (so every transition from \<open>delivered\<close> or
  \<open>cancelled\<close>) is refused with the validation error of the function and the store is
  as before; whatever the store answers, a transition that succeeds has followed an edge
  and one that fails has changed nothing. \<open>PayOrder\<close> by another user than the owner
  finds no order. In particular cancelling from \<open>pending\<close>, \<open>paid\<close>, \<open>confirmed\<close> or
  \<open>shipped\<close> succeeds and gives \<open>cancelled\<close>.
\<close>

theorem C5_status_transitions:
  assumes "find (\<lambda>r. Order.ID r = orderID) (orders s) = Some order"
    and "owner_checked t \<longrightarrow> Order.UserID order = userID"
  shows "(\<forall>st. edge t (Order.Status order) = Some st \<and> (\<forall>k. \<not> fl k) \<longrightarrow>
            fst (transition_op t fl orderID userID s) =
              Inr (order_response (order\<lparr>Order.Status := st\<rparr>) []) \<and>
            orders (snd (transition_op t fl orderID userID s)) =
              Save (order\<lparr>Order.Status := st\<rparr>) (orders s) \<and>
            find (\<lambda>r. Order.ID r = orderID) (orders (snd (transition_op t fl orderID userID s))) =
              Some (order\<lparr>Order.Status := st\<rparr>)) \<and>
         (edge t (Order.Status order) = None \<and> \<not> fl 0 \<longrightarrow>
            transition_op t fl orderID userID s = (Inl (refusal t), s)) \<and>
         (\<forall>r s'. transition_op t fl orderID userID s = (Inr r, s') \<longrightarrow>
            edge t (Order.Status order) = Some (OrderResponse.Status r)) \<and>
         (\<forall>e s'. transition_op t fl orderID userID s = (Inl e, s') \<longrightarrow> s' = s) \<and>
         (\<forall>u. u \<noteq> Order.UserID order \<and> distinct (map Order.ID (orders s)) \<and> \<not> fl 0 \<longrightarrow>
            PayOrder fl orderID u s = (Inl (Error ''order not found''), s))"
proof (intro conjI allI impI)
  fix st
  assume a: "edge t (Order.Status order) = Some st \<and> (\<forall>k. \<not> fl k)"
  then have taken: "fst (transition_op t fl orderID userID s) =
           Inr (order_response (order\<lparr>Order.Status := st\<rparr>) []) \<and>
         orders (snd (transition_op t fl orderID userID s)) =
           Save (order\<lparr>Order.Status := st\<rparr>) (orders s)"
    using transition_taken [OF assms, of fl st] by simp
  then show "fst (transition_op t fl orderID userID s) =
              Inr (order_response (order\<lparr>Order.Status := st\<rparr>) [])"
    and "orders (snd (transition_op t fl orderID userID s)) =
              Save (order\<lparr>Order.Status := st\<rparr>) (orders s)"
    by simp_all
  have "find (\<lambda>r. Order.ID r = orderID) (Save (order\<lparr>Order.Status := st\<rparr>) (orders s)) =
      Some (order\<lparr>Order.Status := st\<rparr>)"
    using assms(1) find_key [OF assms(1)] by (intro find_Save) simp_all
  then show "find (\<lambda>r. Order.ID r = orderID) (orders (snd (transition_op t fl orderID userID s))) =
              Some (order\<lparr>Order.Status := st\<rparr>)"
    using taken by simp
next
  assume "edge t (Order.Status order) = None \<and> \<not> fl 0"
  then show "transition_op t fl orderID userID s = (Inl (refusal t), s)"
    using transition_refused [OF assms] by simp
next
  fix r s'
  assume "transition_op t fl orderID userID s = (Inr r, s')"
  then show "edge t (Order.Status order) = Some (OrderResponse.Status r)"
    by (rule transition_only_along_edge [OF assms])
next
  fix e s'
  assume "transition_op t fl orderID userID s = (Inl e, s')"
  then show "s' = s" by (rule transition_error_keeps_store)
next
  fix u
  assume "u \<noteq> Order.UserID order \<and> distinct (map Order.ID (orders s)) \<and> \<not> fl 0"
  then show "PayOrder fl orderID u s = (Inl (Error ''order not found''), s)"
    using PayOrder_not_owner [OF assms(1), of u fl] by auto
qed

lemma shop_cancelled_eq:
  "shop_cancelled = shop\<lparr>orders := [order_1 OrderStatusCancelled], order_items := order_1_items\<rparr>"
  by (simp add: shop_cancelled_def shop_paid_eq CancelOrder_def Let_def First_def no_faults_def
      Save_def order_1_def)

theorem C5_status_transitions_witness:
  "fst (PayOrder no_faults 1 7 shop_pending) =
     Inr (order_response (order_1 OrderStatusPaid) []) \<and>
   ShipOrder no_faults 1 shop_pending =
     (Inl (Error ''order must be confirmed before shipping''), shop_pending) \<and>
   fst (CancelOrder no_faults 1 shop_paid) =
     Inr (order_response (order_1 OrderStatusCancelled) []) \<and>
   CancelOrder no_faults 1 shop_cancelled =
     (Inl (Error ''order cannot be cancelled''), shop_cancelled) \<and>
   PayOrder no_faults 1 8 shop_pending = (Inl (Error ''order not found''), shop_pending)"
proof -
  have nf: "\<forall>k. \<not> no_faults k" "\<not> no_faults 0" by (simp_all add: no_faults_def)
  have pending: "find (\<lambda>r. Order.ID r = 1) (orders shop_pending) = Some (order_1 OrderStatusPending)"
    by (simp add: shop_pending_eq order_1_def)
  have paid: "find (\<lambda>r. Order.ID r = 1) (orders shop_paid) = Some (order_1 OrderStatusPaid)"
    by (simp add: shop_paid_eq order_1_def)
  have cancelled: "find (\<lambda>r. Order.ID r = 1) (orders shop_cancelled) = Some (order_1 OrderStatusCancelled)"
    by (simp add: shop_cancelled_eq order_1_def)
  have owner: "owner_checked Pay \<longrightarrow> Order.UserID (order_1 OrderStatusPending) = 7"
    by (simp add: order_1_def)
  have d: "distinct (map Order.ID (orders shop_pending))"
    by (simp add: shop_pending_eq)
  have "fst (PayOrder no_faults 1 7 shop_pending) = Inr (order_response (order_1 OrderStatusPaid) [])"
    "PayOrder no_faults 1 8 shop_pending = (Inl (Error ''order not found''), shop_pending)"
    using C5_status_transitions [OF pending owner, of no_faults] nf d
    by (simp_all add: order_1_def)
  moreover have "ShipOrder no_faults 1 shop_pending =
     (Inl (Error ''order must be confirmed before shipping''), shop_pending)"
    using C5_status_transitions [OF pending, of Ship 7 no_faults] nf
    by (simp add: order_1_def)
  moreover have "fst (CancelOrder no_faults 1 shop_paid) =
     Inr (order_response (order_1 OrderStatusCancelled) [])"
    using C5_status_transitions [OF paid, of Cancel 7 no_faults] nf
    by (simp add: order_1_def)
  moreover have "CancelOrder no_faults 1 shop_cancelled =
     (Inl (Error ''order cannot be cancelled''), shop_cancelled)"
    using C5_status_transitions [OF cancelled, of Cancel 7 no_faults] nf
    by (simp add: order_1_def)
  ultimately show ?thesis by simp
qed

section \<open>Who may cancel\<close>

lemma ParseUint32_1: "ParseUint32 ''1'' = Some 1"
  by (simp add: ParseUint32_def digit_of_def)

text \<open>The handler answers every authenticated user alike.\<close>

lemma OrderHandler_CancelOrder_any_user:
  "OrderHandler_CancelOrder fl (Some u) param s = OrderHandler_CancelOrder fl (Some u') param s"
  by (simp add: OrderHandler_CancelOrder_def)

text \<open>
  C6. The cancellation is not kept to the owner and the administrators. User 8 holds no
  role (the role directory resolves user 8 to \<open>user\<close>) and is not the owner of order 1,
  which belongs to user 7; the request of user 8 to cancel order 1 is answered with
  status 200 and the order is \<open>cancelled\<close>.
\<close>

theorem C6_CancelOrder_by_stranger:
  "GetUserRole no_faults 0 8 shop_pending = Inr ROLE_USER \<and>
   find (\<lambda>r. Order.ID r = 1) (orders shop_pending) = Some (order_1 OrderStatusPending) \<and>
   Order.UserID (order_1 OrderStatusPending) = 7 \<and>
   OrderHandler_CancelOrder no_faults (Some 8) ''1'' shop_pending =
     (JSON 200 (SuccessResponse ''Order cancelled successfully''
                  (order_response (order_1 OrderStatusCancelled) [])),
      shop\<lparr>orders := [order_1 OrderStatusCancelled], order_items := order_1_items\<rparr>)"
  by (simp add: GetUserRole_def OrderHandler_CancelOrder_def CancelOrder_def ParseUint32_1
      shop_pending_eq First_def no_faults_def Let_def Save_def order_1_def shop_def)

section \<open>The role directory\<close>

















text \<open>
  C9. \<open>RemoveRole\<close> with the acting user as target fails, whatever the role of that user
  and whatever the store answers, and leaves the store as it was: the acting user is
  not \<open>super_admin\<close> (or cannot be resolved), or is refused as removing their own role.
\<close>

theorem C9_RemoveRole_self:
  "RemoveRole fl u u s = (Some (Error ''failed to verify remover role''), s) \<or>
   RemoveRole fl u u s = (Some (Error ''only super admin can remove roles''), s) \<or>
   RemoveRole fl u u s = (Some (Error ''cannot remove your own role''), s)"
  by (simp add: RemoveRole_def split: sum.splits)

section \<open>Line items and their orders\<close>

text \<open>
  The services keep the line items with their orders: if every line item of the store
  belongs to an order of the store, so it is after \<open>CreateOrder\<close> and after every
  status transition, whatever the store answers.
\<close>

lemma map_ID_Save: "map Order.ID (Save order rows) = map Order.ID rows"
  by (induction rows) (simp_all add: Save_def)

lemma image_ID_Save: "Order.ID ` set (Save order rows) = Order.ID ` set rows"
  using map_ID_Save [of order rows] by (metis set_map)

lemma in_enumerate_snd: "(i, x) \<in> set (enumerate n xs) \<Longrightarrow> x \<in> set xs"
  by (metis map_snd_enumerate set_zip_rightD zip_map_fst_snd)

lemma insert_items_set:
  assumes "it \<in> set (insert_items rows new)"
  shows "it \<in> set rows \<or> (\<exists>x\<in>set new. OrderItem.OrderID it = OrderItem.OrderID x)"
  using assms by (auto simp: insert_items_def dest: in_enumerate_snd)

lemma CreateOrder_keeps_items_with_orders:
  assumes "\<forall>it\<in>set (order_items s). OrderItem.OrderID it \<in> set (map Order.ID (orders s))"
  shows "\<forall>it\<in>set (order_items (snd (CreateOrder float64 fl now userID items s))).
           OrderItem.OrderID it \<in> set (map Order.ID (orders (snd (CreateOrder float64 fl now userID items s))))"
  using assms
  by (auto simp: CreateOrder_def Let_def First_def
      split: sum.splits prod.splits option.splits if_splits dest!: insert_items_set)

lemma transition_keeps_items_with_orders:
  assumes "\<forall>it\<in>set (order_items s). OrderItem.OrderID it \<in> set (map Order.ID (orders s))"
  shows "\<forall>it\<in>set (order_items (snd (transition_op t fl orderID userID s))).
           OrderItem.OrderID it \<in> set (map Order.ID (orders (snd (transition_op t fl orderID userID s))))"
  using assms
  by (cases t)
     (auto simp: PayOrder_def ConfirmOrder_def ShipOrder_def DeliverOrder_def CancelOrder_def
        UpdateOrderStatus_def Let_def image_ID_Save
        split: found.splits sum.splits if_splits)

end
